theory Spec2Isabelle
  imports Complex_Main "HOL-Library.AList"
begin

section \<open>Python floats\<close>

text \<open>
  Every monetary value of \<^verbatim>\<open>app.py\<close> is a Python \<^verbatim>\<open>float\<close>:
  \<^verbatim>\<open>create_account\<close> stores \<^verbatim>\<open>float(balance)\<close>, the balance loop adds and
  subtracts \<^verbatim>\<open>float(t['amount'])\<close>. A Python float is an IEEE 754 binary64 value. The
  model keeps a finite float as the rational number it denotes and rounds the exact result
  of every operation to the nearest binary64 value, ties to even; the two signed zeros are
  identified (they differ only in how they print).
\<close>

datatype pyfloat = Fin rat | PInf | NInf | NaN

definition pow2 :: "int \<Rightarrow> rat" where
  "pow2 k = (if 0 \<le> k then 2 ^ nat k else 1 / 2 ^ nat (- k))"

text \<open>\<^verbatim>\<open>int.bit_length\<close>: the number of binary digits of a natural number.\<close>

fun bit_length :: "nat \<Rightarrow> nat" where
  "bit_length n = (if n = 0 then 0 else Suc (bit_length (n div 2)))"

declare bit_length.simps [simp del]

text \<open>
  The binary exponent of a positive rational: the \<open>k\<close> with \<open>2^k \<le> x < 2^(k+1)\<close>. From
  \<open>1\<close> on it is one less than the bit length of the integer part; below \<open>1\<close> it is minus
  the least \<open>k\<close> with \<open>1 / x \<le> 2^k\<close>.
\<close>

definition ilog2 :: "rat \<Rightarrow> int" where
  "ilog2 x =
     (if 1 \<le> x then int (bit_length (nat \<lfloor>x\<rfloor>)) - 1
      else - int (bit_length (nat (\<lceil>1 / x\<rceil> - 1))))"

definition round_half_even :: "rat \<Rightarrow> int" where
  "round_half_even x =
     (let f = \<lfloor>x\<rfloor>; r = x - of_int f
      in if r < 1 / 2 then f
         else if 1 / 2 < r then f + 1
         else if even f then f else f + 1)"

text \<open>
  Rounding to binary64: 53 significant bits, with the unit in the last place \<open>2^e\<close> never
  below \<open>2^-1074\<close> (subnormal numbers). The rounded magnitude is \<open>m * 2^e\<close> with
  \<open>m \<le> 2^53\<close>; it overflows to an infinity when it reaches \<open>2^1024\<close>, that is when
  \<open>e > 971\<close>, or \<open>e = 971\<close> and \<open>m = 2^53\<close>.
\<close>

definition round64 :: "rat \<Rightarrow> pyfloat" where
  "round64 x =
     (if x = 0 then Fin 0
      else
        let e = max (ilog2 \<bar>x\<bar> - 52) (- 1074);
            m = round_half_even (\<bar>x\<bar> / pow2 e)
        in if 971 < e \<or> (e = 971 \<and> 2 ^ 53 \<le> m) then (if 0 < x then PInf else NInf)
           else Fin (if 0 < x then of_int m * pow2 e else - (of_int m * pow2 e)))"


instantiation pyfloat :: "{zero, plus, uminus, minus, abs, ord}"
begin

definition zero_pyfloat :: pyfloat where
  "zero_pyfloat = Fin 0"

fun plus_pyfloat :: "pyfloat \<Rightarrow> pyfloat \<Rightarrow> pyfloat" where
  "plus_pyfloat NaN _ = NaN"
| "plus_pyfloat _ NaN = NaN"
| "plus_pyfloat PInf NInf = NaN"
| "plus_pyfloat NInf PInf = NaN"
| "plus_pyfloat PInf _ = PInf"
| "plus_pyfloat _ PInf = PInf"
| "plus_pyfloat NInf _ = NInf"
| "plus_pyfloat _ NInf = NInf"
| "plus_pyfloat (Fin x) (Fin y) = round64 (x + y)"

fun uminus_pyfloat :: "pyfloat \<Rightarrow> pyfloat" where
  "uminus_pyfloat (Fin x) = Fin (- x)"
| "uminus_pyfloat PInf = NInf"
| "uminus_pyfloat NInf = PInf"
| "uminus_pyfloat NaN = NaN"

definition minus_pyfloat :: "pyfloat \<Rightarrow> pyfloat \<Rightarrow> pyfloat" where
  "minus_pyfloat a b = a + (- b)"

fun abs_pyfloat :: "pyfloat \<Rightarrow> pyfloat" where
  "abs_pyfloat (Fin x) = Fin \<bar>x\<bar>"
| "abs_pyfloat PInf = PInf"
| "abs_pyfloat NInf = PInf"
| "abs_pyfloat NaN = NaN"

text \<open>Comparisons with NaN are false, as in Python.\<close>

fun less_pyfloat :: "pyfloat \<Rightarrow> pyfloat \<Rightarrow> bool" where
  "less_pyfloat NaN _ = False"
| "less_pyfloat _ NaN = False"
| "less_pyfloat (Fin x) (Fin y) = (x < y)"
| "less_pyfloat _ NInf = False"
| "less_pyfloat NInf _ = True"
| "less_pyfloat PInf _ = False"
| "less_pyfloat (Fin x) PInf = True"

fun less_eq_pyfloat :: "pyfloat \<Rightarrow> pyfloat \<Rightarrow> bool" where
  "less_eq_pyfloat NaN _ = False"
| "less_eq_pyfloat _ NaN = False"
| "less_eq_pyfloat (Fin x) (Fin y) = (x \<le> y)"
| "less_eq_pyfloat NInf _ = True"
| "less_eq_pyfloat _ PInf = True"
| "less_eq_pyfloat _ NInf = False"
| "less_eq_pyfloat PInf _ = False"

instance ..

end

section \<open>The session store\<close>

text \<open>
  \<^verbatim>\<open>st.session_state.db\<close> holds four collections. The dictionaries are association lists
  in insertion order; \<^const>\<open>AList.update\<close> is Python's \<^verbatim>\<open>d[k] = v\<close> (an existing key
  keeps its place, a new key goes last) and \<^const>\<open>map_of\<close> its lookup.
\<close>

datatype error = KeyError | BusinessNameRequired

record business =
  b_name :: string
  b_type :: string
  bn :: string
  city :: string
  province :: string
  owner_email :: string

record account =
  a_id :: string
  a_business_id :: string
  a_name :: string
  a_type :: string
  initial_balance :: pyfloat
  is_active :: bool

record transaction =
  t_id :: string
  t_business_id :: string
  t_date :: nat
  t_type :: string
  amount :: pyfloat
  description :: string
  category :: string
  account_id :: string
  from_account_id :: "string option"
  to_account_id :: "string option"

record db =
  users :: "(string \<times> string) list"
  businesses :: "(string \<times> business) list"
  accounts :: "account list"
  transactions :: "transaction list"

definition empty_db :: db where
  "empty_db = \<lparr>users = [], businesses = [], accounts = [], transactions = []\<rparr>"

subsection \<open>DataManager\<close>

text \<open>
  \<^verbatim>\<open>uuid.uuid4()\<close> and \<^verbatim>\<open>datetime.now()\<close> are inputs from the environment: each
  operation takes the identifiers and the timestamp it draws as arguments.
  \<^verbatim>\<open>create_account\<close> and \<^verbatim>\<open>add_transaction\<close> return nothing (Python's \<^verbatim>\<open>None\<close>), so
  the model returns the new store only. \<^verbatim>\<open>float(balance)\<close> is the identity on a float.
\<close>

definition create_account :: "string \<Rightarrow> string \<Rightarrow> string \<Rightarrow> string \<Rightarrow> pyfloat \<Rightarrow> db \<Rightarrow> db" where
  "create_account uid business_id name acc_type balance s =
     s\<lparr>accounts := accounts s @
        [\<lparr>a_id = uid, a_business_id = business_id, a_name = name, a_type = acc_type,
          initial_balance = balance, is_active = True\<rparr>]\<rparr>"

definition get_accounts :: "string \<Rightarrow> db \<Rightarrow> account list" where
  "get_accounts business_id s = filter (\<lambda>a. a_business_id a = business_id) (accounts s)"

text \<open>
  \<^verbatim>\<open>create_business\<close> draws three identifiers: the business's and the two default
  accounts'. The business record is the form's data with \<^verbatim>\<open>owner_email\<close> set.
\<close>

definition create_business :: "string \<Rightarrow> string \<Rightarrow> string \<Rightarrow> string \<Rightarrow> business \<Rightarrow> db \<Rightarrow> string \<times> db" where
  "create_business bus_id uid1 uid2 user_email data s =
     (let s0 = s\<lparr>businesses := AList.update bus_id (data\<lparr>owner_email := user_email\<rparr>) (businesses s)\<rparr>;
          s1 = create_account uid1 bus_id ''Main Chequing'' ''Bank'' (Fin 0) s0;
          s2 = create_account uid2 bus_id ''Corporate Card'' ''Credit Card'' (Fin 0) s1
      in (bus_id, s2))"

text \<open>The first business, in insertion order, whose owner is the user.\<close>

definition get_business_by_user :: "string \<Rightarrow> db \<Rightarrow> (string \<times> business) option" where
  "get_business_by_user email s = find (\<lambda>(bid, data). owner_email data = email) (businesses s)"

text \<open>
  The dictionary passed to \<^verbatim>\<open>add_transaction\<close>, as the only caller (the form) builds it:
  it never has the keys \<^verbatim>\<open>id\<close>, \<^verbatim>\<open>business_id\<close> or \<^verbatim>\<open>date\<close>, and the two transfer
  keys are present for a transfer only.
\<close>

record tx_data =
  d_type :: string
  d_amount :: pyfloat
  d_description :: string
  d_category :: string
  d_account_id :: string
  d_from_account_id :: "string option"
  d_to_account_id :: "string option"

definition new_tx :: "string \<Rightarrow> nat \<Rightarrow> string \<Rightarrow> tx_data \<Rightarrow> transaction" where
  "new_tx uid now business_id data =
     \<lparr>t_id = uid, t_business_id = business_id, t_date = now,
      t_type = d_type data, amount = d_amount data, description = d_description data,
      category = d_category data, account_id = d_account_id data,
      from_account_id = d_from_account_id data, to_account_id = d_to_account_id data\<rparr>"

definition add_transaction :: "string \<Rightarrow> nat \<Rightarrow> string \<Rightarrow> tx_data \<Rightarrow> db \<Rightarrow> db" where
  "add_transaction uid now business_id data s =
     s\<lparr>transactions := transactions s @ [new_tx uid now business_id data]\<rparr>"

definition get_transactions :: "string \<Rightarrow> db \<Rightarrow> transaction list" where
  "get_transactions business_id s = filter (\<lambda>t. t_business_id t = business_id) (transactions s)"

subsection \<open>The forms\<close>

definition CATEGORIES :: "string list" where
  "CATEGORIES =
     [''Sales'', ''Services'', ''Advertising'', ''Meals & Entertainment'',
      ''Office Supplies'', ''Rent'', ''Salaries'', ''Software'', ''Travel'',
      ''Utilities'', ''Inventory'', ''Bank Fees'', ''GST/HST Paid'', ''GST/HST Collected'',
      ''Owner Draw'', ''Owner Investment'']"

text \<open>
  A dictionary comprehension \<^verbatim>\<open>{k: v for ...}\<close>: the pairs are stored one after the
  other, a repeated key keeping its first place and taking the last value.
\<close>

definition dict_of :: "('k \<times> 'v) list \<Rightarrow> ('k \<times> 'v) list" where
  "dict_of kvs = foldl (\<lambda>d (k, v). AList.update k v d) [] kvs"

text \<open>
  \<^verbatim>\<open>d[k]\<close> where \<open>k\<close> may be \<^verbatim>\<open>None\<close> (a select box with no options returns
  \<^verbatim>\<open>None\<close>, which is never a key here).
\<close>

definition lookup :: "('k \<times> 'v) list \<Rightarrow> 'k option \<Rightarrow> error + 'v" where
  "lookup d k =
     (case k of None \<Rightarrow> Inl KeyError
      | Some k' \<Rightarrow> (case map_of d k' of None \<Rightarrow> Inl KeyError | Some v \<Rightarrow> Inr v))"

text \<open>
  The onboarding form: \<^verbatim>\<open>if bus_name: db.create_business(...) else: st.error(...)\<close>.
\<close>

definition onboarding_submit :: "string \<Rightarrow> string \<Rightarrow> string \<Rightarrow> string \<Rightarrow> business \<Rightarrow> db \<Rightarrow> error + db" where
  "onboarding_submit bus_id uid1 uid2 user_email bus_data s =
     (if b_name bus_data \<noteq> [] then Inr (snd (create_business bus_id uid1 uid2 user_email bus_data s))
      else Inl BusinessNameRequired)"

text \<open>What the widgets of the form "Record Transaction" hold when it is submitted.\<close>

record tx_form =
  tx_type :: string
  f_amount :: pyfloat
  desc :: string
  f_category :: string
  account_name :: "string option"
  to_account_name :: "string option"

definition acc_options :: "account list \<Rightarrow> (string \<times> string) list" where
  "acc_options accs = dict_of (map (\<lambda>a. (a_name a, a_id a)) accs)"

text \<open>
  The handler of "Save Transaction" (\<^verbatim>\<open>dashboard_view\<close>, lines 289 to 301): the category
  of a transfer is overwritten with \<^verbatim>\<open>"Transfer"\<close>; a name that is not a key raises
  \<^verbatim>\<open>KeyError\<close> before anything is stored.
\<close>

definition save_transaction :: "string \<Rightarrow> nat \<Rightarrow> string \<Rightarrow> account list \<Rightarrow> tx_form \<Rightarrow> db \<Rightarrow> error + db" where
  "save_transaction uid now business_id accs f s =
     (case lookup (acc_options accs) (account_name f) of
        Inl e \<Rightarrow> Inl e
      | Inr aid \<Rightarrow>
          let tx_data = \<lparr>d_type = tx_type f, d_amount = f_amount f, d_description = desc f,
                          d_category = (if tx_type f = ''Transfer'' then ''Transfer'' else f_category f),
                          d_account_id = aid,
                          d_from_account_id = None, d_to_account_id = None\<rparr>
          in if tx_type f = ''Transfer'' then
               (case lookup (acc_options accs) (to_account_name f) of
                  Inl e \<Rightarrow> Inl e
                | Inr tid \<Rightarrow>
                    Inr (add_transaction uid now business_id
                          (tx_data\<lparr>d_from_account_id := Some aid, d_to_account_id := Some tid\<rparr>) s))
             else Inr (add_transaction uid now business_id tx_data s))"

text \<open>
  What the widgets can hold. A select box returns one of its options, or \<^verbatim>\<open>None\<close> when
  it has none; the amount field is \<^verbatim>\<open>st.number_input(min_value=0.01)\<close>, whose value is
  never below the float \<^verbatim>\<open>0.01\<close>; the "To Account" box exists for a transfer only and
  offers the names other than the selected one.
\<close>

definition selectbox :: "'a list \<Rightarrow> 'a option set" where
  "selectbox opts = (if opts = [] then {None} else Some ` set opts)"

definition form_ok :: "account list \<Rightarrow> tx_form \<Rightarrow> bool" where
  "form_ok accs f \<longleftrightarrow>
     tx_type f \<in> set [''Outflow'', ''Inflow'', ''Transfer''] \<and>
     round64 (1 / 100) \<le> f_amount f \<and>
     f_category f \<in> set CATEGORIES \<and>
     account_name f \<in> selectbox (map fst (acc_options accs)) \<and>
     to_account_name f \<in>
       (if tx_type f = ''Transfer''
        then selectbox (filter (\<lambda>n. Some n \<noteq> account_name f) (map fst (acc_options accs)))
        else {None})"

subsection \<open>Reachable stores\<close>

text \<open>
  The store starts empty (and is empty again after "Log Out", which clears the session).
  It changes in three places only: the onboarding form, shown while the user has no
  business; the form "Add New Account"; and the form "Record Transaction". The last two
  are part of the dashboard of the user's business.
\<close>

inductive reachable :: "db \<Rightarrow> bool" where
  init: "reachable empty_db"
| onboard:
    "reachable s \<Longrightarrow> get_business_by_user email s = None \<Longrightarrow>
     onboarding_submit bus_id uid1 uid2 email bus_data s = Inr s' \<Longrightarrow> reachable s'"
| new_account:
    "reachable s \<Longrightarrow> get_business_by_user email s = Some (bid, b) \<Longrightarrow>
     atype \<in> set [''Bank'', ''Credit Card'', ''Cash''] \<Longrightarrow>
     reachable (create_account uid bid aname atype abal s)"
| save:
    "reachable s \<Longrightarrow> get_business_by_user email s = Some (bid, b) \<Longrightarrow>
     form_ok (get_accounts bid s) f \<Longrightarrow>
     save_transaction uid now bid (get_accounts bid s) f s = Inr s' \<Longrightarrow> reachable s'"

subsection \<open>The dashboard's balances and totals\<close>

text \<open>
  \<^verbatim>\<open>d[k] += x\<close> and \<^verbatim>\<open>d[k] -= x\<close>: the value is read first, which raises
  \<^verbatim>\<open>KeyError\<close> when \<open>k\<close> is no key, and the result is stored.
\<close>

definition dict_modify :: "'k \<Rightarrow> ('v \<Rightarrow> 'v) \<Rightarrow> ('k \<times> 'v) list \<Rightarrow> error + ('k \<times> 'v) list" where
  "dict_modify k f d =
     (case map_of d k of None \<Rightarrow> Inl KeyError | Some v \<Rightarrow> Inr (AList.update k (f v) d))"

text \<open>
  One round of the loop \<^verbatim>\<open>for t in transactions\<close> (lines 205 to 213). A record whose
  type is none of the three changes nothing; a transfer without its two keys raises
  \<^verbatim>\<open>KeyError\<close>.
\<close>

definition apply_transaction :: "(string \<times> pyfloat) list \<Rightarrow> transaction \<Rightarrow> error + (string \<times> pyfloat) list" where
  "apply_transaction acc_balances t =
     (let amt = amount t in
      if t_type t = ''Inflow'' then dict_modify (account_id t) (\<lambda>b. b + amt) acc_balances
      else if t_type t = ''Outflow'' then dict_modify (account_id t) (\<lambda>b. b - amt) acc_balances
      else if t_type t = ''Transfer'' then
        (case from_account_id t of
           None \<Rightarrow> Inl KeyError
         | Some src \<Rightarrow>
             (case dict_modify src (\<lambda>b. b - amt) acc_balances of
                Inl e \<Rightarrow> Inl e
              | Inr d \<Rightarrow>
                  (case to_account_id t of
                     None \<Rightarrow> Inl KeyError
                   | Some dst \<Rightarrow> dict_modify dst (\<lambda>b. b + amt) d)))
      else Inr acc_balances)"

fun calculate_balances :: "(string \<times> pyfloat) list \<Rightarrow> transaction list \<Rightarrow> error + (string \<times> pyfloat) list" where
  "calculate_balances d [] = Inr d"
| "calculate_balances d (t # ts) =
     (case apply_transaction d t of Inl e \<Rightarrow> Inl e | Inr d' \<Rightarrow> calculate_balances d' ts)"

definition initial_balances :: "account list \<Rightarrow> (string \<times> pyfloat) list" where
  "initial_balances accs = dict_of (map (\<lambda>a. (a_id a, initial_balance a)) accs)"

text \<open>
  Adding up from \<open>0\<close>, from left to right: what the loop \<^verbatim>\<open>liabilities += ...\<close>
  computes, and what the built-in \<^verbatim>\<open>sum\<close> computes in CPython up to 3.11. From 3.12 on
  \<^verbatim>\<open>sum\<close> compensates the rounding errors of a sum of floats and may return another
  float. The built-in is no part of \<^verbatim>\<open>app.py\<close>: the dashboard takes it as the parameter
  \<open>sum_fn\<close>, and \<open>left_sum\<close> is one instance.
\<close>

definition left_sum :: "pyfloat list \<Rightarrow> pyfloat" where
  "left_sum xs = foldl (+) 0 xs"

definition calc_assets :: "(pyfloat list \<Rightarrow> pyfloat) \<Rightarrow> account list \<Rightarrow> (string \<times> pyfloat) list \<Rightarrow> pyfloat" where
  "calc_assets sum_fn accs acc_balances =
     sum_fn (map snd (filter (\<lambda>(aid, b). list_ex (\<lambda>a. a_type a \<noteq> ''Credit Card'' \<and> a_id a = aid) accs)
                        acc_balances))"

fun calc_liabilities :: "account list \<Rightarrow> (string \<times> pyfloat) list \<Rightarrow> pyfloat \<Rightarrow> error + pyfloat" where
  "calc_liabilities [] acc_balances l = Inr l"
| "calc_liabilities (acc # accs) acc_balances l =
     (case map_of acc_balances (a_id acc) of
        None \<Rightarrow> Inl KeyError
      | Some bal \<Rightarrow>
          calc_liabilities accs acc_balances
            (if a_type acc = ''Credit Card'' then l + \<bar>bal\<bar>
             else if bal < 0 then l + \<bar>bal\<bar>
             else l))"

record dashboard =
  acc_balances :: "(string \<times> pyfloat) list"
  assets :: pyfloat
  liabilities :: pyfloat
  net_position :: pyfloat

definition dashboard_calc :: "(pyfloat list \<Rightarrow> pyfloat) \<Rightarrow> account list \<Rightarrow> transaction list \<Rightarrow> error + dashboard" where
  "dashboard_calc sum_fn accs txs =
     (case calculate_balances (initial_balances accs) txs of
        Inl e \<Rightarrow> Inl e
      | Inr d \<Rightarrow>
          (case calc_liabilities accs d 0 of
             Inl e \<Rightarrow> Inl e
           | Inr l \<Rightarrow>
               Inr \<lparr>acc_balances = d, assets = calc_assets sum_fn accs d, liabilities = l,
                    net_position = calc_assets sum_fn accs d - l\<rparr>))"

text \<open>What \<^verbatim>\<open>dashboard_view(business)\<close> computes before it renders a tab.\<close>

definition dashboard_view :: "(pyfloat list \<Rightarrow> pyfloat) \<Rightarrow> string \<Rightarrow> db \<Rightarrow> error + dashboard" where
  "dashboard_view sum_fn business_id s =
     dashboard_calc sum_fn (get_accounts business_id s) (get_transactions business_id s)"

text \<open>
  The balance shown on an account's card: \<^verbatim>\<open>acc_balances.get(acc['id'], 0.0)\<close>.
\<close>

definition card_balance :: "(string \<times> pyfloat) list \<Rightarrow> string \<Rightarrow> pyfloat" where
  "card_balance d aid = (case map_of d aid of Some b \<Rightarrow> b | None \<Rightarrow> Fin 0)"

subsection \<open>The ledger table and its search box\<close>

text \<open>
  The table filters with \<^verbatim>\<open>Series.str.contains(search, case=False)\<close>. The call leaves
  \<^verbatim>\<open>regex\<close> at its default \<^verbatim>\<open>True\<close>, so pandas compiles the text as a regular
  expression with \<^verbatim>\<open>re.IGNORECASE\<close> and keeps the rows where \<^verbatim>\<open>re.search\<close> finds a
  match. The model covers the patterns made of ordinary characters and the dot, on ASCII
  text; a pattern with any other special character is outside the model (\<open>None\<close>).
\<close>

datatype re_item = Lit char | AnyChar

definition re_special :: "char list" where
  "re_special = [CHR ''.'', CHR ''^'', CHR ''$'', CHR ''*'', CHR ''+'', CHR ''?'', CHR ''{'', CHR ''}'',
                 CHR ''['', CHR '']'', CHR 0x5C, CHR ''|'', CHR ''('', CHR '')'']"

fun re_compile :: "string \<Rightarrow> re_item list option" where
  "re_compile [] = Some []"
| "re_compile (c # cs) =
     (if c = CHR ''.'' then map_option ((#) AnyChar) (re_compile cs)
      else if c \<in> set re_special then None
      else map_option ((#) (Lit c)) (re_compile cs))"

definition to_lower :: "char \<Rightarrow> char" where
  "to_lower c =
     (case map_of (zip ''ABCDEFGHIJKLMNOPQRSTUVWXYZ'' ''abcdefghijklmnopqrstuvwxyz'') c of
        Some l \<Rightarrow> l
      | None \<Rightarrow> c)"

text \<open>Without \<^verbatim>\<open>re.DOTALL\<close> the dot matches every character but the newline.\<close>

fun match_item :: "re_item \<Rightarrow> char \<Rightarrow> bool" where
  "match_item (Lit c) x = (to_lower c = to_lower x)"
| "match_item AnyChar x = (x \<noteq> CHR 0x0A)"

fun match_here :: "re_item list \<Rightarrow> string \<Rightarrow> bool" where
  "match_here [] s = True"
| "match_here (p # ps) [] = False"
| "match_here (p # ps) (x # xs) = (match_item p x \<and> match_here ps xs)"

fun re_search :: "re_item list \<Rightarrow> string \<Rightarrow> bool" where
  "re_search ps [] = match_here ps []"
| "re_search ps (x # xs) = (match_here ps (x # xs) \<or> re_search ps xs)"

text \<open>
  The rows of the table (lines 307 to 320): nothing without transactions, every row
  while the search box is empty, the matching rows otherwise.
\<close>

definition ledger_rows :: "string \<Rightarrow> transaction list \<Rightarrow> transaction list option" where
  "ledger_rows search txs =
     (if txs = [] then Some []
      else if search = [] then Some txs
      else (case re_compile search of
              None \<Rightarrow> None
            | Some ps \<Rightarrow>
                Some (filter (\<lambda>t. re_search ps (description t) \<or> re_search ps (category t)) txs)))"

section \<open>The specification's vocabulary\<close>

text \<open>
  The specification's filter: the transactions whose description or category contains the
  filter text as a substring, letter case ignored.
\<close>

fun starts_with :: "'a list \<Rightarrow> 'a list \<Rightarrow> bool" where
  "starts_with [] s = True"
| "starts_with (p # ps) [] = False"
| "starts_with (p # ps) (x # xs) = (p = x \<and> starts_with ps xs)"

fun substring_of :: "'a list \<Rightarrow> 'a list \<Rightarrow> bool" where
  "substring_of p [] = starts_with p []"
| "substring_of p (x # xs) = (starts_with p (x # xs) \<or> substring_of p xs)"

definition contains_ci :: "string \<Rightarrow> string \<Rightarrow> bool" where
  "contains_ci flt s = substring_of (map to_lower flt) (map to_lower s)"

definition spec_list_transactions :: "string \<Rightarrow> transaction list \<Rightarrow> transaction list" where
  "spec_list_transactions flt txs =
     filter (\<lambda>t. contains_ci flt (description t) \<or> contains_ci flt (category t)) txs"

text \<open>
  The specification's signed effect of one transaction on the balance \<open>b\<close> of the account
  \<open>aid\<close>: an inflow adds the amount to its account, an outflow subtracts it, a transfer
  subtracts it from the from-account and adds it to the to-account.
\<close>

definition signed_effect :: "string \<Rightarrow> pyfloat \<Rightarrow> transaction \<Rightarrow> pyfloat" where
  "signed_effect aid b t =
     (if t_type t = ''Inflow'' then (if account_id t = aid then b + amount t else b)
      else if t_type t = ''Outflow'' then (if account_id t = aid then b - amount t else b)
      else if t_type t = ''Transfer'' then
        (let b' = (if from_account_id t = Some aid then b - amount t else b)
         in if to_account_id t = Some aid then b' + amount t else b')
      else b)"

text \<open>
  A valid call of \<^verbatim>\<open>add_transaction\<close> names accounts of the business: the account of an
  inflow or outflow, both accounts of a transfer. The same for a stored transaction, and
  for the ledger of a business as a whole.
\<close>

definition valid_call :: "account list \<Rightarrow> tx_data \<Rightarrow> bool" where
  "valid_call accs data \<longleftrightarrow>
     (if d_type data = ''Transfer''
      then d_from_account_id data \<in> Some ` a_id ` set accs \<and>
           d_to_account_id data \<in> Some ` a_id ` set accs
      else d_account_id data \<in> a_id ` set accs)"

definition refs_ok :: "string set \<Rightarrow> transaction \<Rightarrow> bool" where
  "refs_ok ids t \<longleftrightarrow>
     (if t_type t = ''Transfer''
      then from_account_id t \<in> Some ` ids \<and> to_account_id t \<in> Some ` ids
      else account_id t \<in> ids)"

definition ledger_ok :: "string \<Rightarrow> db \<Rightarrow> bool" where
  "ledger_ok business_id s \<longleftrightarrow>
     list_all (refs_ok (a_id ` set (get_accounts business_id s))) (get_transactions business_id s)"

text \<open>A sequence of calls, each with the identifier and the time it draws.\<close>

definition record_all :: "string \<Rightarrow> (string \<times> nat \<times> tx_data) list \<Rightarrow> db \<Rightarrow> db" where
  "record_all business_id calls s =
     foldl (\<lambda>s' (uid, now, data). add_transaction uid now business_id data s') s calls"

section \<open>A worked ledger\<close>

text \<open>
  A business is set up, which creates its bank account and its credit card with opening
  balance \<open>0.0\<close>; then an inflow of 1000 to the bank account, an outflow of 200 from it
  and a transfer of 150 from the bank account to the credit card are recorded.
\<close>

definition demo_business :: business where
  "demo_business =
     \<lparr>b_name = ''Maple Leaf Consulting Inc.'', b_type = ''Corporation'', bn = [],
      city = ''Toronto'', province = ''Ontario'', owner_email = []\<rparr>"

definition demo_db0 :: db where
  "demo_db0 = snd (create_business ''b1'' ''a1'' ''a2'' ''demo@business.ca'' demo_business empty_db)"

definition demo_db1 :: db where
  "demo_db1 = add_transaction ''t1'' 1 ''b1''
     \<lparr>d_type = ''Inflow'', d_amount = Fin 1000, d_description = ''Invoice 17'',
      d_category = ''Sales'', d_account_id = ''a1'',
      d_from_account_id = None, d_to_account_id = None\<rparr> demo_db0"

definition demo_db2 :: db where
  "demo_db2 = add_transaction ''t2'' 2 ''b1''
     \<lparr>d_type = ''Outflow'', d_amount = Fin 200, d_description = ''Tim Hortons'',
      d_category = ''Meals & Entertainment'', d_account_id = ''a1'',
      d_from_account_id = None, d_to_account_id = None\<rparr> demo_db1"

definition demo_db3 :: db where
  "demo_db3 = add_transaction ''t3'' 3 ''b1''
     \<lparr>d_type = ''Transfer'', d_amount = Fin 150, d_description = ''Card payment'',
      d_category = ''Transfer'', d_account_id = ''a1'',
      d_from_account_id = Some ''a1'', d_to_account_id = Some ''a2''\<rparr> demo_db2"

text \<open>The same three records as the form "Record Transaction" submits them.\<close>

definition demo_form1 :: tx_form where
  "demo_form1 =
     \<lparr>tx_type = ''Inflow'', f_amount = Fin 1000, desc = ''Invoice 17'', f_category = ''Sales'',
      account_name = Some ''Main Chequing'', to_account_name = None\<rparr>"

definition demo_form2 :: tx_form where
  "demo_form2 =
     \<lparr>tx_type = ''Outflow'', f_amount = Fin 200, desc = ''Tim Hortons'',
      f_category = ''Meals & Entertainment'',
      account_name = Some ''Main Chequing'', to_account_name = None\<rparr>"

definition demo_form3 :: tx_form where
  "demo_form3 =
     \<lparr>tx_type = ''Transfer'', f_amount = Fin 150, desc = ''Card payment'', f_category = ''Rent'',
      account_name = Some ''Main Chequing'', to_account_name = Some ''Corporate Card''\<rparr>"

text \<open>The three records as a sequence of calls of \<^verbatim>\<open>add_transaction\<close>.\<close>

definition demo_calls :: "(string \<times> nat \<times> tx_data) list" where
  "demo_calls =
     [(''t1'', 1,
       \<lparr>d_type = ''Inflow'', d_amount = Fin 1000, d_description = ''Invoice 17'',
        d_category = ''Sales'', d_account_id = ''a1'',
        d_from_account_id = None, d_to_account_id = None\<rparr>),
      (''t2'', 2,
       \<lparr>d_type = ''Outflow'', d_amount = Fin 200, d_description = ''Tim Hortons'',
        d_category = ''Meals & Entertainment'', d_account_id = ''a1'',
        d_from_account_id = None, d_to_account_id = None\<rparr>),
      (''t3'', 3,
       \<lparr>d_type = ''Transfer'', d_amount = Fin 150, d_description = ''Card payment'',
        d_category = ''Transfer'', d_account_id = ''a1'',
        d_from_account_id = Some ''a1'', d_to_account_id = Some ''a2''\<rparr>)]"

text \<open>
  A second ledger, with an overdrawn bank account: opening balances 100 (bank), 0 (credit
  card) and 50 (cash); an outflow of 300 from the bank account, then a transfer of 150
  from the bank account to the credit card.
\<close>

definition overdrawn_accounts :: "account list" where
  "overdrawn_accounts =
     [\<lparr>a_id = ''a1'', a_business_id = ''b1'', a_name = ''Main Chequing'', a_type = ''Bank'',
       initial_balance = Fin 100, is_active = True\<rparr>,
      \<lparr>a_id = ''a2'', a_business_id = ''b1'', a_name = ''Corporate Card'', a_type = ''Credit Card'',
       initial_balance = Fin 0, is_active = True\<rparr>,
      \<lparr>a_id = ''a3'', a_business_id = ''b1'', a_name = ''Till'', a_type = ''Cash'',
       initial_balance = Fin 50, is_active = True\<rparr>]"

definition overdrawn_ledger :: "transaction list" where
  "overdrawn_ledger =
     [\<lparr>t_id = ''t1'', t_business_id = ''b1'', t_date = 1, t_type = ''Outflow'', amount = Fin 300,
       description = ''Rent for May'', category = ''Rent'', account_id = ''a1'',
       from_account_id = None, to_account_id = None\<rparr>,
      \<lparr>t_id = ''t2'', t_business_id = ''b1'', t_date = 2, t_type = ''Transfer'', amount = Fin 150,
       description = ''Card payment'', category = ''Transfer'', account_id = ''a1'',
       from_account_id = Some ''a1'', to_account_id = Some ''a2''\<rparr>]"

text \<open>
  A third ledger, with amounts that are no binary fractions: one bank account opened with
  \<open>0.0\<close>, then inflows of \<open>0.1\<close> and \<open>0.2\<close>. The float written \<open>0.1\<close> is the
  binary64 value nearest to one tenth.
\<close>

definition drift_accounts :: "account list" where
  "drift_accounts =
     [\<lparr>a_id = ''a1'', a_business_id = ''b1'', a_name = ''Main Chequing'', a_type = ''Bank'',
       initial_balance = Fin 0, is_active = True\<rparr>]"


text \<open>
  A transfer submitted for the business of the third ledger, which has one account only:
  the box "To Account" has no option and holds \<^verbatim>\<open>None\<close>.
\<close>

definition lone_transfer_form :: tx_form where
  "lone_transfer_form =
     \<lparr>tx_type = ''Transfer'', f_amount = Fin 10, desc = ''Card payment'', f_category = ''Sales'',
      account_name = Some ''Main Chequing'', to_account_name = None\<rparr>"

section \<open>Evaluating floats\<close>

lemma floor_rat_numeral: "\<lfloor>numeral a / numeral b :: rat\<rfloor> = numeral a div numeral b"
  by (metis floor_divide_of_int_eq of_int_numeral)

lemma ceiling_rat_numeral: "\<lceil>numeral a / numeral b :: rat\<rceil> = - (- numeral a div numeral b)"
  by (metis ceiling_def floor_divide_of_int_eq minus_divide_left of_int_minus of_int_numeral)

lemmas float_eval =
  round64_def ilog2_def round_half_even_def pow2_def bit_length.simps Let_def
  floor_rat_numeral ceiling_rat_numeral minus_pyfloat_def zero_pyfloat_def


section \<open>What the operations store\<close>

lemma accounts_create_account [simp]:
  "accounts (create_account uid bid name ty bal s) =
     accounts s @ [\<lparr>a_id = uid, a_business_id = bid, a_name = name, a_type = ty,
                    initial_balance = bal, is_active = True\<rparr>]"
  by (simp add: create_account_def)

lemma transactions_create_account [simp]:
  "transactions (create_account uid bid name ty bal s) = transactions s"
  by (simp add: create_account_def)

lemma businesses_create_account [simp]:
  "businesses (create_account uid bid name ty bal s) = businesses s"
  by (simp add: create_account_def)

lemma accounts_add_transaction [simp]:
  "accounts (add_transaction uid now bid data s) = accounts s"
  by (simp add: add_transaction_def)

lemma businesses_add_transaction [simp]:
  "businesses (add_transaction uid now bid data s) = businesses s"
  by (simp add: add_transaction_def)

lemma transactions_add_transaction:
  "transactions (add_transaction uid now bid data s) = transactions s @ [new_tx uid now bid data]"
  by (simp add: add_transaction_def)

lemma accounts_create_business:
  "accounts (snd (create_business bus_id uid1 uid2 email data s)) =
     accounts s @
       [\<lparr>a_id = uid1, a_business_id = bus_id, a_name = ''Main Chequing'', a_type = ''Bank'',
         initial_balance = Fin 0, is_active = True\<rparr>,
        \<lparr>a_id = uid2, a_business_id = bus_id, a_name = ''Corporate Card'', a_type = ''Credit Card'',
         initial_balance = Fin 0, is_active = True\<rparr>]"
  by (simp add: create_business_def Let_def)

lemma transactions_create_business [simp]:
  "transactions (snd (create_business bus_id uid1 uid2 email data s)) = transactions s"
  by (simp add: create_business_def Let_def)

lemma onboarding_submit_Inr:
  "onboarding_submit bus_id uid1 uid2 email data s = Inr s' \<Longrightarrow>
     b_name data \<noteq> [] \<and> s' = snd (create_business bus_id uid1 uid2 email data s)"
  by (auto simp: onboarding_submit_def split: if_splits)

text \<open>What a successful save has stored: one record, built from the form.\<close>

lemma save_transaction_Inr:
  assumes "save_transaction uid now bid accs f s = Inr s'"
  obtains aid where
    "lookup (acc_options accs) (account_name f) = Inr aid"
    "tx_type f \<noteq> ''Transfer''"
    "s' = add_transaction uid now bid
            \<lparr>d_type = tx_type f, d_amount = f_amount f, d_description = desc f,
             d_category = f_category f, d_account_id = aid,
             d_from_account_id = None, d_to_account_id = None\<rparr> s"
  | aid tid where
    "lookup (acc_options accs) (account_name f) = Inr aid"
    "lookup (acc_options accs) (to_account_name f) = Inr tid"
    "tx_type f = ''Transfer''"
    "s' = add_transaction uid now bid
            \<lparr>d_type = ''Transfer'', d_amount = f_amount f, d_description = desc f,
             d_category = ''Transfer'', d_account_id = aid,
             d_from_account_id = Some aid, d_to_account_id = Some tid\<rparr> s"
  using assms
  by (auto simp: save_transaction_def Let_def split: sum.splits if_splits)

lemma Transfer_not_category: "''Transfer'' \<notin> set CATEGORIES"
  by (simp add: CATEGORIES_def)


section \<open>The worked ledger is reachable\<close>

lemmas demo_defs = demo_db3_def demo_db2_def demo_db1_def demo_db0_def demo_business_def
  create_business_def create_account_def add_transaction_def new_tx_def empty_db_def

lemma amount_min: "round64 (1 / 100) = Fin (5764607523034235 / 576460752303423488)"
  by (simp add: float_eval)

lemma demo_accounts0:
  "get_accounts ''b1'' demo_db0 =
     [\<lparr>a_id = ''a1'', a_business_id = ''b1'', a_name = ''Main Chequing'', a_type = ''Bank'',
       initial_balance = Fin 0, is_active = True\<rparr>,
      \<lparr>a_id = ''a2'', a_business_id = ''b1'', a_name = ''Corporate Card'', a_type = ''Credit Card'',
       initial_balance = Fin 0, is_active = True\<rparr>]"
  by (simp add: demo_defs get_accounts_def Let_def)

lemma demo_accounts [simp]:
  "get_accounts ''b1'' demo_db1 = get_accounts ''b1'' demo_db0"
  "get_accounts ''b1'' demo_db2 = get_accounts ''b1'' demo_db0"
  "get_accounts ''b1'' demo_db3 = get_accounts ''b1'' demo_db0"
  by (simp_all add: demo_db1_def demo_db2_def demo_db3_def add_transaction_def get_accounts_def)

lemma demo_options:
  "acc_options (get_accounts ''b1'' demo_db0) = [(''Main Chequing'', ''a1''), (''Corporate Card'', ''a2'')]"
  by (simp add: demo_accounts0 acc_options_def dict_of_def)

lemma demo_business_of_user:
  "get_business_by_user ''demo@business.ca'' demo_db0 = Some (''b1'', demo_business\<lparr>owner_email := ''demo@business.ca''\<rparr>)"
  "get_business_by_user ''demo@business.ca'' demo_db1 = Some (''b1'', demo_business\<lparr>owner_email := ''demo@business.ca''\<rparr>)"
  "get_business_by_user ''demo@business.ca'' demo_db2 = Some (''b1'', demo_business\<lparr>owner_email := ''demo@business.ca''\<rparr>)"
  by (simp_all add: get_business_by_user_def demo_db2_def demo_db1_def demo_db0_def
      create_business_def create_account_def add_transaction_def new_tx_def empty_db_def Let_def)

lemma demo_forms_ok:
  "form_ok (get_accounts ''b1'' demo_db0) demo_form1"
  "form_ok (get_accounts ''b1'' demo_db0) demo_form2"
  "form_ok (get_accounts ''b1'' demo_db0) demo_form3"
  by (simp_all add: form_ok_def demo_options demo_form1_def demo_form2_def demo_form3_def
      CATEGORIES_def selectbox_def amount_min)

lemma demo_saves:
  "save_transaction ''t1'' 1 ''b1'' (get_accounts ''b1'' demo_db0) demo_form1 demo_db0 = Inr demo_db1"
  "save_transaction ''t2'' 2 ''b1'' (get_accounts ''b1'' demo_db0) demo_form2 demo_db1 = Inr demo_db2"
  "save_transaction ''t3'' 3 ''b1'' (get_accounts ''b1'' demo_db0) demo_form3 demo_db2 = Inr demo_db3"
  by (simp_all add: save_transaction_def lookup_def demo_options demo_form1_def demo_form2_def
      demo_form3_def demo_db1_def demo_db2_def demo_db3_def)

lemma demo_onboarding:
  "onboarding_submit ''b1'' ''a1'' ''a2'' ''demo@business.ca'' demo_business empty_db = Inr demo_db0"
  by (simp add: onboarding_submit_def demo_db0_def demo_business_def)

lemma reachable_demo_db0: "reachable demo_db0"
  by (rule reachable.onboard [OF reachable.init _ demo_onboarding])
     (simp add: get_business_by_user_def empty_db_def)

lemma reachable_demo_db1: "reachable demo_db1"
  using reachable.save [OF reachable_demo_db0 demo_business_of_user(1) demo_forms_ok(1) demo_saves(1)] .

lemma reachable_demo_db2: "reachable demo_db2"
  using reachable.save [OF reachable_demo_db1 demo_business_of_user(2), of demo_form2 "''t2''" 2 demo_db2]
    demo_forms_ok(2) demo_saves(2) by simp

lemma reachable_demo_db3: "reachable demo_db3"
  using reachable.save [OF reachable_demo_db2 demo_business_of_user(3), of demo_form3 "''t3''" 3 demo_db3]
    demo_forms_ok(3) demo_saves(3) by simp

lemma demo_transactions:
  "transactions demo_db3 =
     [\<lparr>t_id = ''t1'', t_business_id = ''b1'', t_date = 1, t_type = ''Inflow'', amount = Fin 1000,
       description = ''Invoice 17'', category = ''Sales'', account_id = ''a1'',
       from_account_id = None, to_account_id = None\<rparr>,
      \<lparr>t_id = ''t2'', t_business_id = ''b1'', t_date = 2, t_type = ''Outflow'', amount = Fin 200,
       description = ''Tim Hortons'', category = ''Meals & Entertainment'', account_id = ''a1'',
       from_account_id = None, to_account_id = None\<rparr>,
      \<lparr>t_id = ''t3'', t_business_id = ''b1'', t_date = 3, t_type = ''Transfer'', amount = Fin 150,
       description = ''Card payment'', category = ''Transfer'', account_id = ''a1'',
       from_account_id = Some ''a1'', to_account_id = Some ''a2''\<rparr>]"
  by (simp add: demo_defs Let_def)

section \<open>Invariants of the reachable stores\<close>

text \<open>
  Claim C10. In every reachable state of the store every account record has its active
  flag equal to True: \<^verbatim>\<open>create_account\<close> sets it, and no operation changes an account
  afterwards.
\<close>

theorem accounts_always_active:
  "reachable s \<Longrightarrow> \<forall>a \<in> set (accounts s). is_active a"
proof (induction rule: reachable.induct)
  case init
  show ?case by (simp add: empty_db_def)
next
  case (onboard s email bus_id uid1 uid2 bus_data s')
  from onboard.hyps(3) have "s' = snd (create_business bus_id uid1 uid2 email bus_data s)"
    by (simp add: onboarding_submit_Inr)
  with onboard.IH show ?case by (simp add: accounts_create_business)
next
  case (new_account s email bid b atype uid aname abal)
  then show ?case by simp
next
  case (save s email bid b f uid now s')
  from save.hyps(4) have "accounts s' = accounts s"
    by (rule save_transaction_Inr) simp_all
  with save.IH show ?case by simp
qed


theorem accounts_always_active_witness:
  "reachable demo_db3 \<and> accounts demo_db3 \<noteq> [] \<and> list_all is_active (accounts demo_db3)"
  using accounts_always_active [OF reachable_demo_db3] reachable_demo_db3
  by (simp add: list_all_iff demo_defs Let_def)

lemma reachable_transfer_category:
  "reachable s \<Longrightarrow> \<forall>t \<in> set (transactions s). t_type t = ''Transfer'' \<longrightarrow> category t = ''Transfer''"
proof (induction rule: reachable.induct)
  case init
  show ?case by (simp add: empty_db_def)
next
  case (onboard s email bus_id uid1 uid2 bus_data s')
  from onboard.hyps(3) have "s' = snd (create_business bus_id uid1 uid2 email bus_data s)"
    by (simp add: onboarding_submit_Inr)
  with onboard.IH show ?case by simp
next
  case (new_account s email bid b atype uid aname abal)
  then show ?case by simp
next
  case (save s email bid b f uid now s')
  show ?case
    by (rule save_transaction_Inr [OF save.hyps(4)])
       (use save.IH in \<open>auto simp: transactions_add_transaction new_tx_def\<close>)
qed


text \<open>
  Claim C9. In every reachable state of the store, every transaction of kind Transfer has
  the category \<^verbatim>\<open>"Transfer"\<close>, whatever category the form's select box held, and that
  category is not a member of the fixed category list.
\<close>

theorem transfer_category:
  "reachable s \<Longrightarrow>
     \<forall>t \<in> set (transactions s).
       t_type t = ''Transfer'' \<longrightarrow> category t = ''Transfer'' \<and> category t \<notin> set CATEGORIES"
  using reachable_transfer_category [of s] Transfer_not_category by auto

theorem transfer_category_witness:
  "reachable demo_db3 \<and> f_category demo_form3 = ''Rent'' \<and>
   t_type (last (transactions demo_db3)) = ''Transfer'' \<and>
   category (last (transactions demo_db3)) = ''Transfer'' \<and>
   category (last (transactions demo_db3)) \<notin> set CATEGORIES"
  using transfer_category [OF reachable_demo_db3] reachable_demo_db3
  by (simp add: demo_transactions demo_form3_def)

section \<open>The worked ledger's dashboard\<close>

text \<open>
  Claim C3. For a business with one Bank account and one Credit Card account, both opened
  with balance 0, after an inflow of 1000 to the bank account, an outflow of 200 from it
  and a transfer of 150 from the bank account to the credit card, the dashboard computes
  the bank balance 650, the credit card balance 150, assets 650, liabilities 150 and net
  position 500. The balances and the liabilities do not depend on the built-in
  \<^verbatim>\<open>sum\<close>; assets is its value on the one item 650, which adding up from \<open>0\<close> gives
  as 650.
\<close>

theorem demo_dashboard:
  "dashboard_view sum_fn ''b1'' demo_db3 =
     Inr \<lparr>acc_balances = [(''a1'', Fin 650), (''a2'', Fin 150)],
          assets = sum_fn [Fin 650], liabilities = Fin 150,
          net_position = sum_fn [Fin 650] - Fin 150\<rparr> \<and>
   dashboard_view left_sum ''b1'' demo_db3 =
     Inr \<lparr>acc_balances = [(''a1'', Fin 650), (''a2'', Fin 150)],
          assets = Fin 650, liabilities = Fin 150, net_position = Fin 500\<rparr>"
  by (simp add: dashboard_view_def dashboard_calc_def demo_accounts0 demo_transactions
      get_transactions_def initial_balances_def dict_of_def apply_transaction_def dict_modify_def
      calc_assets_def left_sum_def float_eval)

section \<open>Dictionaries\<close>

lemma update_fresh_key: "k \<notin> fst ` set d \<Longrightarrow> AList.update k v d = d @ [(k, v)]"
  by (induction d) auto

lemma dict_of_aux:
  "distinct (map fst (d @ kvs)) \<Longrightarrow> foldl (\<lambda>d (k, v). AList.update k v d) d kvs = d @ kvs"
proof (induction kvs arbitrary: d)
  case Nil
  show ?case by simp
next
  case (Cons kv kvs)
  obtain k v where kv: "kv = (k, v)" by (cases kv)
  from Cons.prems kv have fresh: "k \<notin> fst ` set d" by auto
  from Cons.prems kv have "distinct (map fst ((d @ [(k, v)]) @ kvs))" by simp
  from Cons.IH [OF this] show ?case by (simp add: kv update_fresh_key [OF fresh])
qed

lemma dict_of_distinct: "distinct (map fst kvs) \<Longrightarrow> dict_of kvs = kvs"
  using dict_of_aux [of "[]" kvs] by (simp add: dict_of_def)

lemma initial_balances_distinct:
  "distinct (map a_id accs) \<Longrightarrow>
     initial_balances accs = map (\<lambda>a. (a_id a, initial_balance a)) accs"
  by (simp add: initial_balances_def dict_of_distinct comp_def)

lemma update_present_keys: "k \<in> fst ` set d \<Longrightarrow> map fst (AList.update k v d) = map fst d"
  by (simp add: update_keys)

lemma dict_modify_present:
  "k \<in> fst ` set d \<Longrightarrow>
     \<exists>v. map_of d k = Some v \<and> dict_modify k f d = Inr (AList.update k (f v) d)"
  by (cases "map_of d k") (auto simp: dict_modify_def map_of_eq_None_iff)

lemma dict_modify_Inr:
  "dict_modify k f d = Inr d' \<Longrightarrow>
     k \<in> fst ` set d \<and> map fst d' = map fst d \<and>
     map_of d' = (map_of d)(k := map_option f (map_of d k))"
proof -
  assume a: "dict_modify k f d = Inr d'"
  then obtain v where v: "map_of d k = Some v" and d': "d' = AList.update k (f v) d"
    by (auto simp: dict_modify_def split: option.splits)
  from v have k: "k \<in> fst ` set d" by (metis map_of_eq_None_iff option.distinct(1))
  from k v d' show ?thesis by (auto simp: update_conv' update_keys)
qed

section \<open>The balance loop, account by account\<close>

lemma apply_transaction_keys:
  "apply_transaction d t = Inr d' \<Longrightarrow> map fst d' = map fst d"
  by (auto simp: apply_transaction_def Let_def split: if_splits option.splits sum.splits
           dest!: dict_modify_Inr)

lemma apply_transaction_effect:
  assumes "apply_transaction d t = Inr d'"
  shows "map_of d' k = map_option (\<lambda>b. signed_effect k b t) (map_of d k)"
  using assms
  by (auto simp: apply_transaction_def signed_effect_def Let_def option.map_comp comp_def
                 option.map_ident
           split: if_splits option.splits sum.splits dest!: dict_modify_Inr)

lemma apply_transaction_defined:
  assumes "refs_ok (fst ` set d) t"
  shows "\<exists>d'. apply_transaction d t = Inr d'"
proof -
  have one: "\<exists>d'. dict_modify k f d = Inr d'" if "k \<in> fst ` set d" for k and f :: "pyfloat \<Rightarrow> pyfloat"
    using dict_modify_present [OF that] by blast
  show ?thesis
  proof (cases "t_type t = ''Transfer''")
    case False
    with assms have "account_id t \<in> fst ` set d" by (simp add: refs_ok_def)
    with False one show ?thesis by (simp add: apply_transaction_def Let_def)
  next
    case True
    with assms obtain src dst where
      src: "from_account_id t = Some src" "src \<in> fst ` set d" and
      dst: "to_account_id t = Some dst" "dst \<in> fst ` set d"
      by (auto simp: refs_ok_def)
    from one [OF src(2)] obtain d1 where d1: "dict_modify src (\<lambda>b. b - amount t) d = Inr d1"
      by blast
    from dict_modify_Inr [OF d1] have "map fst d1 = map fst d" by simp
    then have "fst ` set d1 = fst ` set d" by (metis set_map)
    with dst(2) have "dst \<in> fst ` set d1" by simp
    from dict_modify_present [OF this]
    obtain d2 where "dict_modify dst (\<lambda>b. b + amount t) d1 = Inr d2" by blast
    with True src dst d1 show ?thesis by (simp add: apply_transaction_def Let_def)
  qed
qed

lemma calculate_balances_keys:
  "calculate_balances d txs = Inr d' \<Longrightarrow> map fst d' = map fst d"
proof (induction txs arbitrary: d)
  case Nil
  then show ?case by simp
next
  case (Cons t txs)
  then show ?case
    by (auto split: sum.splits dest: apply_transaction_keys)
qed

lemma calculate_balances_effect:
  "calculate_balances d txs = Inr d' \<Longrightarrow>
     map_of d' k = map_option (\<lambda>b. foldl (signed_effect k) b txs) (map_of d k)"
proof (induction txs arbitrary: d)
  case Nil
  then show ?case by (simp add: option.map_ident)
next
  case (Cons t txs)
  from Cons.prems obtain d1 where d1: "apply_transaction d t = Inr d1"
    and rest: "calculate_balances d1 txs = Inr d'"
    by (auto split: sum.splits)
  from Cons.IH [OF rest] apply_transaction_effect [OF d1, of k]
  show ?case by (simp add: option.map_comp comp_def)
qed

lemma calculate_balances_defined:
  "list_all (refs_ok (fst ` set d)) txs \<Longrightarrow> \<exists>d'. calculate_balances d txs = Inr d'"
proof (induction txs arbitrary: d)
  case Nil
  show ?case by simp
next
  case (Cons t txs)
  from Cons.prems have "refs_ok (fst ` set d) t" by simp
  from apply_transaction_defined [OF this] obtain d1 where d1: "apply_transaction d t = Inr d1"
    by blast
  from apply_transaction_keys [OF d1] have "fst ` set d1 = fst ` set d" by (metis set_map)
  with Cons.prems have "list_all (refs_ok (fst ` set d1)) txs" by simp
  from Cons.IH [OF this] d1 show ?case by simp
qed

section \<open>The totals\<close>

lemma dict_of_keys_aux:
  "fst ` set (foldl (\<lambda>d (k, v). AList.update k v d) d kvs) = fst ` set d \<union> fst ` set kvs"
proof (induction kvs arbitrary: d)
  case Nil
  show ?case by simp
next
  case (Cons kv kvs)
  obtain k v where kv: "kv = (k, v)" by (cases kv)
  have "fst ` set (AList.update k v d) = {k} \<union> fst ` set d" by (rule dom_update)
  with Cons.IH [of "AList.update k v d"] show ?case by (simp add: kv)
qed

lemma initial_balances_keys: "fst ` set (initial_balances accs) = a_id ` set accs"
  by (simp add: initial_balances_def dict_of_def dict_of_keys_aux image_image)

lemma calc_liabilities_eq:
  "a_id ` set accs \<subseteq> fst ` set d \<Longrightarrow>
     calc_liabilities accs d l =
       Inr (foldl (+) l
             (map (\<lambda>a. \<bar>card_balance d (a_id a)\<bar>)
                  (filter (\<lambda>a. a_type a = ''Credit Card'' \<or> card_balance d (a_id a) < 0) accs)))"
proof (induction accs arbitrary: l)
  case Nil
  show ?case by simp
next
  case (Cons a accs)
  from Cons.prems have "a_id a \<in> fst ` set d" by simp
  then obtain b where b: "map_of d (a_id a) = Some b"
    by (metis map_of_eq_None_iff not_Some_eq)
  from Cons.prems have "a_id ` set accs \<subseteq> fst ` set d" by simp
  from Cons.IH [OF this] b show ?case by (simp add: card_balance_def)
qed

lemma dict_as_map:
  assumes "distinct (map fst d)" and "map fst d = map g xs"
  shows "d = map (\<lambda>x. (g x, card_balance d (g x))) xs"
proof (rule nth_equalityI)
  from assms(2) show len: "length d = length (map (\<lambda>x. (g x, card_balance d (g x))) xs)"
    by (metis length_map)
  fix i assume i: "i < length d"
  with len have ix: "i < length xs" by simp
  from assms(2) i ix have key: "fst (d ! i) = g (xs ! i)" by (metis nth_map)
  from i have "(fst (d ! i), snd (d ! i)) \<in> set d" by simp
  with assms(1) have "map_of d (fst (d ! i)) = Some (snd (d ! i))" by (rule map_of_is_SomeI)
  with key have "card_balance d (g (xs ! i)) = snd (d ! i)" by (simp add: card_balance_def)
  with key ix show "d ! i = map (\<lambda>x. (g x, card_balance d (g x))) xs ! i"
    by (simp add: prod_eq_iff)
qed

lemma calc_assets_eq:
  assumes dist: "distinct (map a_id accs)" and keys: "map fst d = map a_id accs"
  shows "calc_assets sum_fn accs d =
           sum_fn (map (\<lambda>a. card_balance d (a_id a)) (filter (\<lambda>a. a_type a \<noteq> ''Credit Card'') accs))"
proof -
  from dist keys have "distinct (map fst d)" by simp
  from dict_as_map [OF this keys] have d: "d = map (\<lambda>a. (a_id a, card_balance d (a_id a))) accs" .
  have same: "list_ex (\<lambda>a'. a_type a' \<noteq> ''Credit Card'' \<and> a_id a' = a_id a) accs
                \<longleftrightarrow> a_type a \<noteq> ''Credit Card''" if "a \<in> set accs" for a
  proof -
    from dist have "inj_on a_id (set accs)" by (simp add: distinct_map)
    with that have "a' = a" if "a' \<in> set accs" "a_id a' = a_id a" for a'
      using that by (auto dest: inj_onD)
    with that show ?thesis by (auto simp: list_ex_iff)
  qed
  have "filter (\<lambda>(aid, b). list_ex (\<lambda>a. a_type a \<noteq> ''Credit Card'' \<and> a_id a = aid) accs)
          (map (\<lambda>a. (a_id a, card_balance d (a_id a))) accs) =
        map (\<lambda>a. (a_id a, card_balance d (a_id a))) (filter (\<lambda>a. a_type a \<noteq> ''Credit Card'') accs)"
    by (simp add: filter_map comp_def same cong: filter_cong)
  then have "map snd (filter (\<lambda>(aid, b). list_ex (\<lambda>a. a_type a \<noteq> ''Credit Card'' \<and> a_id a = aid) accs) d) =
        map (\<lambda>a. card_balance d (a_id a)) (filter (\<lambda>a. a_type a \<noteq> ''Credit Card'') accs)"
    by (subst d) (simp add: comp_def)
  then show ?thesis by (simp add: calc_assets_def)
qed

lemma dashboard_calc_Inr:
  assumes "dashboard_calc sum_fn accs txs = Inr r"
  shows "calculate_balances (initial_balances accs) txs = Inr (acc_balances r)"
    and "calc_liabilities accs (acc_balances r) 0 = Inr (liabilities r)"
    and "assets r = calc_assets sum_fn accs (acc_balances r)"
    and "net_position r = assets r - liabilities r"
  using assms by (auto simp: dashboard_calc_def split: sum.splits)

text \<open>
  Claim C4. For every list of accounts and transactions on which the dashboard's
  computation succeeds, assets minus liabilities equals the net position exactly;
  liabilities is the sum of the absolute balances of the Credit Card accounts and of the
  other accounts whose balance is negative; and, the account identifiers being distinct,
  assets is the sum of the balances of the accounts whose type is not Credit Card.
  Liabilities is added up by a loop, from \<open>0\<close> in the order of the accounts; assets is
  the built-in \<^verbatim>\<open>sum\<close> of the balances in the order of the accounts, whatever that
  built-in computes.
\<close>

theorem kpi_identity:
  assumes "dashboard_calc sum_fn accs txs = Inr r"
  shows "assets r - liabilities r = net_position r \<and>
         liabilities r =
           left_sum (map (\<lambda>a. \<bar>card_balance (acc_balances r) (a_id a)\<bar>)
                     (filter (\<lambda>a. a_type a = ''Credit Card'' \<or> card_balance (acc_balances r) (a_id a) < 0) accs)) \<and>
         (distinct (map a_id accs) \<longrightarrow>
            assets r =
              sum_fn (map (\<lambda>a. card_balance (acc_balances r) (a_id a))
                        (filter (\<lambda>a. a_type a \<noteq> ''Credit Card'') accs)))"
proof -
  note r = dashboard_calc_Inr [OF assms]
  from calculate_balances_keys [OF r(1)]
  have keys: "map fst (acc_balances r) = map fst (initial_balances accs)" .
  then have "fst ` set (acc_balances r) = a_id ` set accs"
    by (metis initial_balances_keys set_map)
  then have "a_id ` set accs \<subseteq> fst ` set (acc_balances r)" by simp
  from calc_liabilities_eq [OF this, of 0] r(2)
  have liab: "liabilities r =
           left_sum (map (\<lambda>a. \<bar>card_balance (acc_balances r) (a_id a)\<bar>)
                     (filter (\<lambda>a. a_type a = ''Credit Card'' \<or> card_balance (acc_balances r) (a_id a) < 0) accs))"
    by (simp add: left_sum_def)
  have "assets r =
              sum_fn (map (\<lambda>a. card_balance (acc_balances r) (a_id a))
                        (filter (\<lambda>a. a_type a \<noteq> ''Credit Card'') accs))"
    if dist: "distinct (map a_id accs)"
  proof -
    from keys dist have "map fst (acc_balances r) = map a_id accs"
      by (simp add: initial_balances_distinct comp_def)
    from calc_assets_eq [OF dist this] r(3) show ?thesis by simp
  qed
  with liab r(4) show ?thesis by simp
qed

lemmas dash_eval = dashboard_view_def dashboard_calc_def get_transactions_def initial_balances_def
  dict_of_def apply_transaction_def dict_modify_def calc_assets_def left_sum_def card_balance_def

lemma overdrawn_dashboard:
  "dashboard_calc left_sum overdrawn_accounts overdrawn_ledger =
     Inr \<lparr>acc_balances = [(''a1'', Fin (- 350)), (''a2'', Fin 150), (''a3'', Fin 50)],
          assets = Fin (- 300), liabilities = Fin 500, net_position = Fin (- 800)\<rparr>"
  by (simp add: overdrawn_accounts_def overdrawn_ledger_def dash_eval float_eval)

theorem kpi_identity_witness:
  "dashboard_calc left_sum overdrawn_accounts overdrawn_ledger =
     Inr \<lparr>acc_balances = [(''a1'', Fin (- 350)), (''a2'', Fin 150), (''a3'', Fin 50)],
          assets = Fin (- 300), liabilities = Fin 500, net_position = Fin (- 800)\<rparr> \<and>
   Fin (- 300) - Fin 500 = Fin (- 800) \<and>
   Fin 500 = left_sum [\<bar>Fin (- 350)\<bar>, \<bar>Fin 150\<bar>] \<and>
   Fin (- 300) = left_sum [Fin (- 350), Fin 50]"
  using kpi_identity [OF overdrawn_dashboard] overdrawn_dashboard
  by (simp add: overdrawn_accounts_def card_balance_def left_sum_def float_eval)


section \<open>Balances as folds of signed effects\<close>

lemma accounts_record_all [simp]: "accounts (record_all bid calls s) = accounts s"
  unfolding record_all_def
  by (induction calls arbitrary: s) (auto simp: add_transaction_def)

lemma transactions_record_all:
  "transactions (record_all bid calls s) =
     transactions s @ map (\<lambda>(uid, now, data). new_tx uid now bid data) calls"
  unfolding record_all_def
  by (induction calls arbitrary: s) (auto simp: add_transaction_def)

lemma get_accounts_record_all [simp]:
  "get_accounts bid' (record_all bid calls s) = get_accounts bid' s"
  by (simp add: get_accounts_def)

lemma get_transactions_record_all:
  "get_transactions bid (record_all bid calls s) =
     get_transactions bid s @ map (\<lambda>(uid, now, data). new_tx uid now bid data) calls"
  by (simp add: get_transactions_def transactions_record_all new_tx_def split_def cong: filter_cong)

lemma refs_ok_new_tx:
  "refs_ok (a_id ` set accs) (new_tx uid now bid data) \<longleftrightarrow> valid_call accs data"
  by (simp add: refs_ok_def valid_call_def new_tx_def)

lemma ledger_ok_record_all:
  assumes "ledger_ok bid s"
    and "list_all (\<lambda>(uid, now, data). valid_call (get_accounts bid s) data) calls"
  shows "ledger_ok bid (record_all bid calls s)"
  using assms
  by (auto simp: ledger_ok_def get_transactions_record_all list_all_iff refs_ok_new_tx)

lemma dashboard_view_balances:
  assumes dist: "distinct (map a_id (get_accounts bid s))" and ok: "ledger_ok bid s"
  shows "\<exists>r. dashboard_view sum_fn bid s = Inr r \<and>
           (\<forall>a \<in> set (get_accounts bid s).
              card_balance (acc_balances r) (a_id a) =
                foldl (signed_effect (a_id a)) (initial_balance a) (get_transactions bid s))"
proof -
  let ?accs = "get_accounts bid s" and ?txs = "get_transactions bid s"
  from ok have "list_all (refs_ok (fst ` set (initial_balances ?accs))) ?txs"
    by (simp add: ledger_ok_def initial_balances_keys)
  from calculate_balances_defined [OF this]
  obtain d where d: "calculate_balances (initial_balances ?accs) ?txs = Inr d" by blast
  from calculate_balances_keys [OF d] have "fst ` set d = fst ` set (initial_balances ?accs)"
    by (metis set_map)
  then have "a_id ` set ?accs \<subseteq> fst ` set d" by (simp add: initial_balances_keys)
  from calc_liabilities_eq [OF this, of 0] obtain l where l: "calc_liabilities ?accs d 0 = Inr l"
    by blast
  let ?r = "\<lparr>acc_balances = d, assets = calc_assets sum_fn ?accs d, liabilities = l,
             net_position = calc_assets sum_fn ?accs d - l\<rparr>"
  from d l have view: "dashboard_view sum_fn bid s = Inr ?r"
    by (simp add: dashboard_view_def dashboard_calc_def)
  have "card_balance d (a_id a) = foldl (signed_effect (a_id a)) (initial_balance a) ?txs"
    if a: "a \<in> set ?accs" for a
  proof -
    from dist have "distinct (map fst (map (\<lambda>a. (a_id a, initial_balance a)) ?accs))"
      by (simp add: comp_def)
    moreover from a have "(a_id a, initial_balance a) \<in> set (map (\<lambda>a. (a_id a, initial_balance a)) ?accs)"
      by auto
    ultimately have "map_of (map (\<lambda>a. (a_id a, initial_balance a)) ?accs) (a_id a) = Some (initial_balance a)"
      by (rule map_of_is_SomeI)
    with dist have "map_of (initial_balances ?accs) (a_id a) = Some (initial_balance a)"
      by (simp add: initial_balances_distinct)
    with calculate_balances_effect [OF d, of "a_id a"] show ?thesis
      by (simp add: card_balance_def)
  qed
  with view show ?thesis by auto
qed

text \<open>
  Claim C1. For every sequence of valid calls of \<^verbatim>\<open>add_transaction\<close> on a store whose
  ledger is valid and whose accounts of the business have distinct identifiers, the
  dashboard's computation succeeds, and the balance of every account of the business is
  its opening balance with the signed effects of the business's transactions applied in
  insertion order: an inflow adds the amount to its account, an outflow subtracts it, a
  transfer subtracts it from the from-account and adds it to the to-account.
\<close>

theorem balances_fold:
  assumes "distinct (map a_id (get_accounts bid s))"
    and "ledger_ok bid s"
    and "list_all (\<lambda>(uid, now, data). valid_call (get_accounts bid s) data) calls"
  shows "\<exists>r. dashboard_view sum_fn bid (record_all bid calls s) = Inr r \<and>
           (\<forall>a \<in> set (get_accounts bid (record_all bid calls s)).
              card_balance (acc_balances r) (a_id a) =
                foldl (signed_effect (a_id a)) (initial_balance a)
                  (get_transactions bid s @ map (\<lambda>(uid, now, data). new_tx uid now bid data) calls))"
  using dashboard_view_balances [where bid = bid and s = "record_all bid calls s" and sum_fn = sum_fn] assms
    ledger_ok_record_all [of bid s calls]
  by (simp add: get_transactions_record_all)

lemma demo_record_all: "record_all ''b1'' demo_calls demo_db0 = demo_db3"
  by (simp add: record_all_def demo_calls_def demo_db3_def demo_db2_def demo_db1_def)

lemma demo_ledger_ok: "ledger_ok ''b1'' demo_db0"
  by (simp add: ledger_ok_def get_transactions_def demo_defs Let_def)

lemma demo_calls_valid:
  "list_all (\<lambda>(uid, now, data). valid_call (get_accounts ''b1'' demo_db0) data) demo_calls"
  by (simp add: demo_calls_def demo_accounts0 valid_call_def)

theorem balances_fold_witness:
  "distinct (map a_id (get_accounts ''b1'' demo_db0)) \<and> ledger_ok ''b1'' demo_db0 \<and>
   list_all (\<lambda>(uid, now, data). valid_call (get_accounts ''b1'' demo_db0) data) demo_calls \<and>
   (\<exists>r. dashboard_view left_sum ''b1'' demo_db3 = Inr r \<and>
      card_balance (acc_balances r) ''a1'' = Fin 0 + Fin 1000 - Fin 200 - Fin 150 \<and>
      card_balance (acc_balances r) ''a2'' = Fin 0 + Fin 150)"
proof -
  have d: "distinct (map a_id (get_accounts ''b1'' demo_db0))"
    by (simp add: demo_accounts0)
  from balances_fold [OF d demo_ledger_ok demo_calls_valid]
  obtain r where r: "dashboard_view left_sum ''b1'' demo_db3 = Inr r"
    and bal: "\<forall>a \<in> set (get_accounts ''b1'' demo_db0).
              card_balance (acc_balances r) (a_id a) =
                foldl (signed_effect (a_id a)) (initial_balance a)
                  (get_transactions ''b1'' demo_db0 @
                   map (\<lambda>(uid, now, data). new_tx uid now ''b1'' data) demo_calls)"
    by (auto simp: demo_record_all)
  have no_txs: "get_transactions ''b1'' demo_db0 = []"
    by (simp add: get_transactions_def demo_defs Let_def)
  from bal have "card_balance (acc_balances r) ''a1'' = Fin 0 + Fin 1000 - Fin 200 - Fin 150"
    and "card_balance (acc_balances r) ''a2'' = Fin 0 + Fin 150"
    by (simp_all add: demo_accounts0 no_txs demo_calls_def new_tx_def signed_effect_def)
  with d demo_ledger_ok demo_calls_valid r show ?thesis by blast
qed

section \<open>Validation that the operations do not do\<close>

lemma amount_min_positive: "round64 (1 / 100) \<le> x \<Longrightarrow> 0 < x"
  by (cases x) (simp_all add: amount_min zero_pyfloat_def)

lemma reachable_amounts:
  "reachable s \<Longrightarrow> \<forall>t \<in> set (transactions s). round64 (1 / 100) \<le> amount t"
proof (induction rule: reachable.induct)
  case init
  show ?case by (simp add: empty_db_def)
next
  case (onboard s email bus_id uid1 uid2 bus_data s')
  from onboard.hyps(3) have "s' = snd (create_business bus_id uid1 uid2 email bus_data s)"
    by (simp add: onboarding_submit_Inr)
  with onboard.IH show ?case by simp
next
  case (new_account s email bid b atype uid aname abal)
  then show ?case by simp
next
  case (save s email bid b f uid now s')
  from save.hyps(3) have amt: "round64 (1 / 100) \<le> f_amount f" by (simp add: form_ok_def)
  show ?case
    by (rule save_transaction_Inr [OF save.hyps(4)])
       (use save.IH amt in \<open>auto simp: transactions_add_transaction new_tx_def\<close>)
qed

text \<open>
  Claim C2, as the code has it. \<^verbatim>\<open>add_transaction\<close> does not look at the amount: every
  call, also one with an amount of zero or less, appends exactly one record with that
  amount. Such an amount is kept out by the form alone, whose amount field has the minimum
  \<open>0.01\<close>: in every reachable state of the store every recorded amount is at least the
  float \<open>0.01\<close>, hence positive.
\<close>

theorem recorded_amounts_positive:
  "transactions (add_transaction uid now bid data s0) = transactions s0 @ [new_tx uid now bid data] \<and>
   amount (new_tx uid now bid data) = d_amount data \<and>
   (reachable s \<longrightarrow>
      (\<forall>t \<in> set (transactions s). round64 (1 / 100) \<le> amount t \<and> 0 < amount t))"
  using reachable_amounts [of s] amount_min_positive
  by (auto simp: transactions_add_transaction new_tx_def)

theorem recorded_amounts_positive_witness:
  "reachable demo_db3 \<and>
   round64 (1 / 100) \<le> amount (last (transactions demo_db3)) \<and>
   0 < amount (last (transactions demo_db3)) \<and>
   amount (last (transactions demo_db3)) = Fin 150"
  using recorded_amounts_positive [of "''t3''" 3 "''b1''" "snd (snd (last demo_calls))" demo_db2 demo_db3]
    reachable_demo_db3
  by (simp add: demo_transactions)

text \<open>
  A call with the amount \<open>-5\<close> on the worked ledger: it does not fail, and the ledger has
  a fourth record.
\<close>

theorem nonpositive_amount_recorded:
  "Fin (- 5) \<le> (0 :: pyfloat) \<and>
   transactions
     (add_transaction ''t4'' 4 ''b1''
        \<lparr>d_type = ''Outflow'', d_amount = Fin (- 5), d_description = ''Refund'',
         d_category = ''Sales'', d_account_id = ''a1'',
         d_from_account_id = None, d_to_account_id = None\<rparr> demo_db3) =
   transactions demo_db3 @
     [\<lparr>t_id = ''t4'', t_business_id = ''b1'', t_date = 4, t_type = ''Outflow'', amount = Fin (- 5),
       description = ''Refund'', category = ''Sales'', account_id = ''a1'',
       from_account_id = None, to_account_id = None\<rparr>] \<and>
   length (transactions
     (add_transaction ''t4'' 4 ''b1''
        \<lparr>d_type = ''Outflow'', d_amount = Fin (- 5), d_description = ''Refund'',
         d_category = ''Sales'', d_account_id = ''a1'',
         d_from_account_id = None, d_to_account_id = None\<rparr> demo_db3)) = 4"
  by (simp add: transactions_add_transaction new_tx_def zero_pyfloat_def demo_transactions)

section \<open>The form's select boxes\<close>

lemma map_of_dict_of_aux:
  "map_of (foldl (\<lambda>d (k, v). AList.update k v d) d kvs) = map_of d ++ map_of (rev kvs)"
proof (induction kvs arbitrary: d)
  case Nil
  show ?case by simp
next
  case (Cons kv kvs)
  obtain k v where kv: "kv = (k, v)" by (cases kv)
  from Cons.IH [of "AList.update k v d"] show ?case
    by (auto simp: kv fun_eq_iff map_add_def update_conv' split: option.splits)
qed

lemma map_of_dict_of: "map_of (dict_of kvs) = map_of (rev kvs)"
  by (simp add: dict_of_def map_of_dict_of_aux)

lemma acc_options_SomeD:
  assumes "map_of (acc_options accs) n = Some i"
  shows "\<exists>a \<in> set accs. a_name a = n \<and> a_id a = i"
proof -
  from assms have "map_of (rev (map (\<lambda>a. (a_name a, a_id a)) accs)) n = Some i"
    by (simp add: acc_options_def map_of_dict_of)
  then have "(n, i) \<in> set (rev (map (\<lambda>a. (a_name a, a_id a)) accs))"
    by (rule map_of_SomeD)
  then show ?thesis by auto
qed

lemma lookup_Inr: "lookup d k = Inr v \<Longrightarrow> \<exists>k'. k = Some k' \<and> map_of d k' = Some v"
  by (auto simp: lookup_def split: option.splits)

lemma lookup_Inl: "lookup d k = Inl e \<Longrightarrow> e = KeyError"
  by (auto simp: lookup_def split: option.splits)

text \<open>
  Claim C5, as the code has it. \<^verbatim>\<open>add_transaction\<close> does not compare the two accounts
  of a transfer: it appends the record it is given. A transfer from an account to itself is
  kept out by the form alone, whose box "To Account" offers the names other than the
  selected one: the account identifiers being distinct, a transfer that the form saves has
  a from-account and a to-account that differ; and when there is no other name, saving a
  transfer raises \<^verbatim>\<open>KeyError\<close> and stores nothing.
\<close>

theorem form_transfer_accounts_differ:
  "transactions (add_transaction uid now bid data s0) = transactions s0 @ [new_tx uid now bid data] \<and>
   (distinct (map a_id accs) \<and> form_ok accs f \<and> tx_type f = ''Transfer'' \<and>
    save_transaction uid now bid accs f s = Inr s' \<longrightarrow>
      (\<exists>t src dst. transactions s' = transactions s @ [t] \<and> t_type t = ''Transfer'' \<and>
         from_account_id t = Some src \<and> to_account_id t = Some dst \<and> src \<noteq> dst)) \<and>
   (form_ok accs f \<and> tx_type f = ''Transfer'' \<and>
    filter (\<lambda>n. Some n \<noteq> account_name f) (map fst (acc_options accs)) = [] \<longrightarrow>
      save_transaction uid now bid accs f s = Inl KeyError)"
proof -
  have differ: "\<exists>t src dst. transactions s' = transactions s @ [t] \<and> t_type t = ''Transfer'' \<and>
         from_account_id t = Some src \<and> to_account_id t = Some dst \<and> src \<noteq> dst"
    if dist: "distinct (map a_id accs)" and ok: "form_ok accs f"
      and transfer: "tx_type f = ''Transfer''"
      and saved: "save_transaction uid now bid accs f s = Inr s'"
  proof (rule save_transaction_Inr [OF saved])
    fix aid assume "tx_type f \<noteq> ''Transfer''"
    with transfer show ?thesis by simp
  next
    fix aid tid
    assume src: "lookup (acc_options accs) (account_name f) = Inr aid"
      and dst: "lookup (acc_options accs) (to_account_name f) = Inr tid"
      and s': "s' = add_transaction uid now bid
            \<lparr>d_type = ''Transfer'', d_amount = f_amount f, d_description = desc f,
             d_category = ''Transfer'', d_account_id = aid,
             d_from_account_id = Some aid, d_to_account_id = Some tid\<rparr> s"
    from lookup_Inr [OF src] obtain n1 where n1: "account_name f = Some n1"
      "map_of (acc_options accs) n1 = Some aid" by blast
    from lookup_Inr [OF dst] obtain n2 where n2: "to_account_name f = Some n2"
      "map_of (acc_options accs) n2 = Some tid" by blast
    from ok transfer n1(1) n2(1) have "n2 \<noteq> n1"
      by (auto simp: form_ok_def selectbox_def split: if_splits)
    from acc_options_SomeD [OF n1(2)] obtain a1 where a1: "a1 \<in> set accs" "a_name a1 = n1" "a_id a1 = aid"
      by blast
    from acc_options_SomeD [OF n2(2)] obtain a2 where a2: "a2 \<in> set accs" "a_name a2 = n2" "a_id a2 = tid"
      by blast
    from dist have "inj_on a_id (set accs)" by (simp add: distinct_map)
    with a1 a2 \<open>n2 \<noteq> n1\<close> have "aid \<noteq> tid" by (auto dest: inj_onD)
    with s' show ?thesis
      by (simp add: transactions_add_transaction new_tx_def)
  qed
  have fails: "save_transaction uid now bid accs f s = Inl KeyError"
    if ok: "form_ok accs f" and transfer: "tx_type f = ''Transfer''"
      and none: "filter (\<lambda>n. Some n \<noteq> account_name f) (map fst (acc_options accs)) = []"
  proof -
    from ok transfer none have "to_account_name f = None"
      by (simp add: form_ok_def selectbox_def)
    then have second: "lookup (acc_options accs) (to_account_name f) = Inl KeyError"
      by (simp add: lookup_def)
    show ?thesis
    proof (cases "lookup (acc_options accs) (account_name f)")
      case (Inl e)
      with lookup_Inl [OF Inl] show ?thesis by (simp add: save_transaction_def)
    next
      case (Inr aid)
      with second transfer show ?thesis by (simp add: save_transaction_def Let_def)
    qed
  qed
  from differ fails show ?thesis by (simp add: transactions_add_transaction)
qed

theorem form_transfer_accounts_differ_witness:
  "distinct (map a_id (get_accounts ''b1'' demo_db0)) \<and>
   form_ok (get_accounts ''b1'' demo_db0) demo_form3 \<and> tx_type demo_form3 = ''Transfer'' \<and>
   save_transaction ''t3'' 3 ''b1'' (get_accounts ''b1'' demo_db0) demo_form3 demo_db2 = Inr demo_db3 \<and>
   (\<exists>t src dst. transactions demo_db3 = transactions demo_db2 @ [t] \<and> t_type t = ''Transfer'' \<and>
      from_account_id t = Some src \<and> to_account_id t = Some dst \<and> src \<noteq> dst) \<and>
   form_ok drift_accounts lone_transfer_form \<and> tx_type lone_transfer_form = ''Transfer'' \<and>
   filter (\<lambda>n. Some n \<noteq> account_name lone_transfer_form) (map fst (acc_options drift_accounts)) = [] \<and>
   save_transaction ''t3'' 3 ''b1'' drift_accounts lone_transfer_form demo_db2 = Inl KeyError"
proof -
  have lone: "form_ok drift_accounts lone_transfer_form" "tx_type lone_transfer_form = ''Transfer''"
    "filter (\<lambda>n. Some n \<noteq> account_name lone_transfer_form) (map fst (acc_options drift_accounts)) = []"
    by (simp_all add: form_ok_def lone_transfer_form_def drift_accounts_def acc_options_def dict_of_def
        CATEGORIES_def selectbox_def amount_min)
  from form_transfer_accounts_differ
      [of "''t3''" 3 "''b1''" "snd (snd (last demo_calls))" demo_db2
          "get_accounts ''b1'' demo_db0" demo_form3 demo_db2 demo_db3]
    form_transfer_accounts_differ
      [of "''t3''" 3 "''b1''" "snd (snd (last demo_calls))" demo_db2
          drift_accounts lone_transfer_form demo_db2 demo_db3]
    demo_forms_ok(3) demo_saves(3) lone
  show ?thesis by (simp add: demo_accounts0 demo_form3_def)
qed

text \<open>
  A call with a transfer from the bank account to itself on the worked ledger: it does not
  fail, and the ledger has a fourth record.
\<close>

theorem same_account_transfer_recorded:
  "transactions
     (add_transaction ''t4'' 4 ''b1''
        \<lparr>d_type = ''Transfer'', d_amount = Fin 10, d_description = ''Loop'',
         d_category = ''Transfer'', d_account_id = ''a1'',
         d_from_account_id = Some ''a1'', d_to_account_id = Some ''a1''\<rparr> demo_db3) =
   transactions demo_db3 @
     [\<lparr>t_id = ''t4'', t_business_id = ''b1'', t_date = 4, t_type = ''Transfer'', amount = Fin 10,
       description = ''Loop'', category = ''Transfer'', account_id = ''a1'',
       from_account_id = Some ''a1'', to_account_id = Some ''a1''\<rparr>] \<and>
   length (transactions
     (add_transaction ''t4'' 4 ''b1''
        \<lparr>d_type = ''Transfer'', d_amount = Fin 10, d_description = ''Loop'',
         d_category = ''Transfer'', d_account_id = ''a1'',
         d_from_account_id = Some ''a1'', d_to_account_id = Some ''a1''\<rparr> demo_db3)) = 4"
  by (simp add: transactions_add_transaction new_tx_def demo_transactions)

section \<open>Creating accounts\<close>

text \<open>
  Claim C6, as the code has it. \<^verbatim>\<open>create_account\<close> checks nothing and returns nothing:
  for every name, the empty one too, and every float balance, the infinities and NaN
  too, it appends exactly one account with the identifier it drew, the given business,
  name, type and balance and the active flag True, and leaves the rest of the store as it
  was; the stored identifiers stay distinct when the drawn identifier is new.
\<close>

theorem create_account_appends:
  "accounts (create_account uid bid name ty bal s) =
     accounts s @ [\<lparr>a_id = uid, a_business_id = bid, a_name = name, a_type = ty,
                    initial_balance = bal, is_active = True\<rparr>] \<and>
   businesses (create_account uid bid name ty bal s) = businesses s \<and>
   transactions (create_account uid bid name ty bal s) = transactions s \<and>
   users (create_account uid bid name ty bal s) = users s \<and>
   get_accounts bid (create_account uid bid name ty bal s) =
     get_accounts bid s @ [\<lparr>a_id = uid, a_business_id = bid, a_name = name, a_type = ty,
                            initial_balance = bal, is_active = True\<rparr>] \<and>
   (distinct (map a_id (accounts s)) \<and> uid \<notin> a_id ` set (accounts s) \<longrightarrow>
      distinct (map a_id (accounts (create_account uid bid name ty bal s))))"
  by (simp add: create_account_def get_accounts_def)

theorem create_account_appends_witness:
  "distinct (map a_id (accounts demo_db3)) \<and> ''a3'' \<notin> a_id ` set (accounts demo_db3) \<and>
   length (accounts (create_account ''a3'' ''b1'' [] ''Cash'' NaN demo_db3)) = 3 \<and>
   a_name (last (accounts (create_account ''a3'' ''b1'' [] ''Cash'' NaN demo_db3))) = [] \<and>
   initial_balance (last (accounts (create_account ''a3'' ''b1'' [] ''Cash'' NaN demo_db3))) = NaN \<and>
   distinct (map a_id (accounts (create_account ''a3'' ''b1'' [] ''Cash'' NaN demo_db3)))"
  using create_account_appends [of "''a3''" "''b1''" "[]" "''Cash''" NaN demo_db3]
  by (simp add: demo_defs Let_def)

text \<open>
  A call with the empty name, and one with an infinite opening balance: each appends its
  account.
\<close>

theorem empty_name_account_created:
  "accounts (create_account ''a3'' ''b1'' [] ''Cash'' (Fin 0) demo_db0) =
     accounts demo_db0 @
       [\<lparr>a_id = ''a3'', a_business_id = ''b1'', a_name = [], a_type = ''Cash'',
         initial_balance = Fin 0, is_active = True\<rparr>] \<and>
   accounts (create_account ''a4'' ''b1'' ''Vault'' ''Cash'' PInf demo_db0) =
     accounts demo_db0 @
       [\<lparr>a_id = ''a4'', a_business_id = ''b1'', a_name = ''Vault'', a_type = ''Cash'',
         initial_balance = PInf, is_active = True\<rparr>]"
  by (simp add: create_account_def)

section \<open>Rounding to binary64\<close>

lemma pow2_powi: "pow2 k = 2 powi k"
  by (simp add: pow2_def power_int_def power_inverse [symmetric] inverse_eq_divide power_one_over)

lemma pow2_pos [simp]: "0 < pow2 k"
  by (simp add: pow2_powi)





lemma pow2_nonzero [simp]: "pow2 k \<noteq> 0"
  by (simp add: pow2_powi)


















section \<open>The search box\<close>

lemma re_compile_plain:
  "set p \<inter> set re_special = {} \<Longrightarrow> re_compile p = Some (map Lit p)"
  by (induction p) (auto simp: re_special_def)

lemma match_here_plain:
  "match_here (map Lit p) s = starts_with (map to_lower p) (map to_lower s)"
  by (induction p s rule: starts_with.induct) simp_all

lemma re_search_plain: "re_search (map Lit p) s = contains_ci p s"
  unfolding contains_ci_def
proof (induction s)
  case Nil
  show ?case using match_here_plain [of p "[]"] by simp
next
  case (Cons x s)
  then show ?case using match_here_plain [of p "x # s"] by simp
qed

lemma substring_of_Nil [simp]: "substring_of [] s"
  by (cases s) simp_all

text \<open>
  For a search text without special characters the table shows what the specification's
  filter returns.
\<close>

lemma ledger_rows_plain:
  assumes "set search \<inter> set re_special = {}"
  shows "ledger_rows search txs = Some (spec_list_transactions search txs)"
proof (cases "search = []")
  case True
  then show ?thesis
    by (cases txs) (simp_all add: ledger_rows_def spec_list_transactions_def contains_ci_def)
next
  case False
  with re_compile_plain [OF assms] show ?thesis
    by (simp add: ledger_rows_def spec_list_transactions_def re_search_plain)
qed

text \<open>
  Claim C8. The specification's filter keeps the transactions whose description or
  category contains the text; the table keeps those where the text, read as a regular
  expression, matches. On the worked ledger the search text \<open>.\<close> is contained in no
  description and no category, yet the table shows all three transactions.
\<close>

theorem search_dot_shows_every_row:
  "spec_list_transactions ''.'' (transactions demo_db3) = [] \<and>
   ledger_rows ''.'' (transactions demo_db3) = Some (transactions demo_db3)"
  by (simp add: demo_transactions ledger_rows_def spec_list_transactions_def contains_ci_def
      to_lower_def re_special_def)

text \<open>
  A search text present in one category only: \<open>meals\<close> occurs in the category of the
  second transaction of the worked ledger and nowhere else, and the table shows exactly
  that transaction.
\<close>

lemma search_by_category_text:
  "ledger_rows ''meals'' (transactions demo_db3) = Some [transactions demo_db3 ! 1]"
proof -
  have "set ''meals'' \<inter> set re_special = {}"
    by (simp add: re_special_def)
  then have "ledger_rows ''meals'' (transactions demo_db3) =
      Some (spec_list_transactions ''meals'' (transactions demo_db3))"
    by (rule ledger_rows_plain)
  also have "spec_list_transactions ''meals'' (transactions demo_db3) = [transactions demo_db3 ! 1]"
    by (simp add: demo_transactions spec_list_transactions_def contains_ci_def to_lower_def)
  finally show ?thesis .
qed

end
